theory Spec2Isabelle
  imports Main
begin

section \<open>Values of the Python program\<close>

text \<open>
  The program of \<^verbatim>\<open>fetch_account_payables.py\<close> handles dynamically typed values: the
  arguments of \<^verbatim>\<open>get_account_payables\<close> are tested with \<^verbatim>\<open>isinstance\<close>, and the body of
  the HTTP response is whatever \<^verbatim>\<open>response.json()\<close> returns. A value is therefore one of
  the types the JSON decoder produces. A string is the list of the bytes of its UTF-8
  form, and text written to standard output is the list of its bytes; for ASCII text a
  byte is a character.

  A float is kept as sign, mantissa and binary exponent (the value is
  \<open>\<plusminus> m * 2 ^ e\<close>), or as an infinity or a NaN, which the decoder of the standard library
  accepts. A dict is the association list of its items in insertion order, with distinct
  keys as the decoder leaves them; \<open>map_of\<close> is the lookup.
\<close>

datatype pyfloat = Finite bool nat int | Infinity bool | NaN

datatype pyval =
    PNone
  | PBool bool
  | PInt int
  | PFloat pyfloat
  | PStr string
  | PList "pyval list"
  | PDict "(string \<times> pyval) list"

text \<open>
  The exceptions that occur. \<open>ValueError\<close>, \<open>TypeError\<close> and \<open>AttributeError\<close> carry
  the text \<^verbatim>\<open>str(e)\<close>, as does \<open>UnicodeEncodeError\<close>, which is a subclass of
  \<^verbatim>\<open>ValueError\<close>; \<open>HTTPError\<close> carries \<^verbatim>\<open>e.response.status_code\<close> and
  \<^verbatim>\<open>e.response.reason\<close>; \<open>OtherException\<close> is any further subclass of
  \<^verbatim>\<open>Exception\<close> with its text. \<open>RequestTimeout\<close> and \<open>ConnectionFailure\<close> are
  \<^verbatim>\<open>requests.exceptions.Timeout\<close> and \<^verbatim>\<open>requests.exceptions.ConnectionError\<close>.
  An interrupt from outside the program (\<^verbatim>\<open>KeyboardInterrupt\<close>) is not an \<^verbatim>\<open>Exception\<close> and
  is outside the model.
\<close>

datatype pyexc =
    ValueError string
  | TypeError string
  | AttributeError string
  | RequestTimeout
  | ConnectionFailure
  | HTTPError nat string
  | JSONDecodeError
  | UnicodeEncodeError string
  | OtherException string

text \<open>
  What the interpreter and its environment do beyond the cases written out below is not
  part of the repository, and is a parameter of the model:
  \<^item> \<open>repr_of\<close> is \<^verbatim>\<open>repr\<close> of a float, list or dict, and \<open>format_float\<close> is
    \<^verbatim>\<open>format(x, " ,")\<close> of a float;
  \<^item> \<open>strip_other\<close> and \<open>upper_other\<close> are \<^verbatim>\<open>str.strip\<close> and \<^verbatim>\<open>str.upper\<close> on text
    that is not ASCII, where they follow the Unicode tables, and \<open>int_other\<close> is \<^verbatim>\<open>int\<close> on
    text that is not ASCII or has more than 640 digits, where the digit limit of the
    interpreter may refuse it;
  \<^item> \<open>encode_mark\<close> is what the encoding of standard output makes of a non-ASCII mark
    that the program prints: the bytes written (the mark itself under UTF-8), or the text
    of the \<^verbatim>\<open>UnicodeEncodeError\<close> when the encoding has no such character;
  \<^item> \<open>prompt_on_stdout\<close> tells whether \<^verbatim>\<open>input\<close> writes its prompt to standard output
    (it does when the streams are redirected; on a terminal the prompt may go to standard
    error).
  Text received from the network or typed by the user is kept as the bytes of its UTF-8
  form; how standard output encodes such text is not modelled.
\<close>

record runtime =
  repr_of :: "pyval \<Rightarrow> string"
  format_float :: "pyfloat \<Rightarrow> string"
  strip_other :: "string \<Rightarrow> string"
  upper_other :: "string \<Rightarrow> string"
  int_other :: "string \<Rightarrow> int option"
  encode_mark :: "string \<Rightarrow> string + string"
  prompt_on_stdout :: bool

subsection \<open>Built-in operations\<close>

definition newline :: char where
  "newline = CHR 0x0A"

definition is_digit :: "char \<Rightarrow> bool" where
  "is_digit c = (48 \<le> (of_char c :: nat) \<and> (of_char c :: nat) \<le> 57)"

definition digit_val :: "char \<Rightarrow> int" where
  "digit_val c = int (of_char c) - 48"

definition digit_char :: "nat \<Rightarrow> char" where
  "digit_char d = char_of (48 + d)"

text \<open>\<^verbatim>\<open>str.isspace\<close> on the ASCII characters: tab to carriage return, the four
  separators \<open>0x1C\<close> to \<open>0x1F\<close>, and the space.\<close>

definition is_space :: "char \<Rightarrow> bool" where
  "is_space c = (let n = (of_char c :: nat) in (9 \<le> n \<and> n \<le> 13) \<or> (28 \<le> n \<and> n \<le> 32))"

text \<open>\<^verbatim>\<open>s.strip()\<close> and \<^verbatim>\<open>s.upper()\<close> of ASCII text.\<close>

definition strip :: "string \<Rightarrow> string" where
  "strip s = rev (dropWhile is_space (rev (dropWhile is_space s)))"

definition to_upper :: "char \<Rightarrow> char" where
  "to_upper c = (let n = (of_char c :: nat) in if 97 \<le> n \<and> n \<le> 122 then char_of (n - 32) else c)"

definition upper :: "string \<Rightarrow> string" where
  "upper s = map to_upper s"

text \<open>The decimal digits of a natural number, and \<^verbatim>\<open>str(i)\<close> of an int.\<close>

fun decimal :: "nat \<Rightarrow> string" where
  "decimal n = (if n < 10 then [digit_char n] else decimal (n div 10) @ [digit_char (n mod 10)])"

declare decimal.simps [simp del]

definition str_int :: "int \<Rightarrow> string" where
  "str_int i = (if i < 0 then ''-'' else '''') @ decimal (nat \<bar>i\<bar>)"

text \<open>
  \<^verbatim>\<open>format(i, " ,")\<close> of an int: a space for a non-negative number and a minus sign for a
  negative one, then the digits in groups of three separated by commas.
\<close>

fun group3 :: "string \<Rightarrow> string" where
  "group3 ds = (if length ds \<le> 3 then ds
     else group3 (take (length ds - 3) ds) @ CHR '','' # drop (length ds - 3) ds)"

declare group3.simps [simp del]

definition format_int :: "int \<Rightarrow> string" where
  "format_int i = (if i < 0 then ''-'' else '' '') @ group3 (decimal (nat \<bar>i\<bar>))"

text \<open>
  \<^verbatim>\<open>int(s)\<close> of ASCII text: surrounding whitespace is dropped, then an optional sign and
  decimal digits, where single underscores may stand between digits. \<open>None\<close> is the
  \<^verbatim>\<open>ValueError\<close>.
\<close>

fun parse_digits :: "int \<Rightarrow> string \<Rightarrow> int option" where
  "parse_digits acc [] = Some acc"
| "parse_digits acc [c] = (if is_digit c then Some (acc * 10 + digit_val c) else None)"
| "parse_digits acc (c # d # cs) =
     (if is_digit c then parse_digits (acc * 10 + digit_val c) (d # cs)
      else if c = CHR ''_'' \<and> is_digit d then parse_digits (acc * 10 + digit_val d) cs
      else None)"

definition parse_unsigned :: "string \<Rightarrow> int option" where
  "parse_unsigned s = (case s of [] \<Rightarrow> None
     | c # cs \<Rightarrow> if is_digit c then parse_digits (digit_val c) cs else None)"

definition py_int :: "string \<Rightarrow> int option" where
  "py_int s = (case strip s of [] \<Rightarrow> None
     | c # cs \<Rightarrow> if c = CHR ''-'' then map_option uminus (parse_unsigned cs)
                else if c = CHR ''+'' then parse_unsigned cs
                else parse_unsigned (c # cs))"

text \<open>
  The three built-ins on any text: on ASCII text they are the functions above, and
  otherwise the runtime's. No setting of the interpreter's digit limit refuses a text of
  up to 640 digits.
\<close>

definition ascii_char :: "char \<Rightarrow> bool" where
  "ascii_char c = ((of_char c :: nat) < 128)"

definition is_ascii :: "string \<Rightarrow> bool" where
  "is_ascii s = list_all ascii_char s"

definition str_strip :: "runtime \<Rightarrow> string \<Rightarrow> string" where
  "str_strip rt s = (if is_ascii s then strip s else strip_other rt s)"

definition str_upper :: "runtime \<Rightarrow> string \<Rightarrow> string" where
  "str_upper rt s = (if is_ascii s then upper s else upper_other rt s)"

definition int_of_str :: "runtime \<Rightarrow> string \<Rightarrow> int option" where
  "int_of_str rt s =
     (if is_ascii s \<and> length (filter is_digit s) \<le> 640 then py_int s else int_other rt s)"

text \<open>Truth value of a value, as \<^verbatim>\<open>not x\<close> and \<^verbatim>\<open>if x\<close> test it.\<close>

fun float_truthy :: "pyfloat \<Rightarrow> bool" where
  "float_truthy (Finite s m e) = (m \<noteq> 0)"
| "float_truthy (Infinity s) = True"
| "float_truthy NaN = True"

fun truthy :: "pyval \<Rightarrow> bool" where
  "truthy PNone = False"
| "truthy (PBool b) = b"
| "truthy (PInt i) = (i \<noteq> 0)"
| "truthy (PFloat f) = float_truthy f"
| "truthy (PStr s) = (s \<noteq> [])"
| "truthy (PList xs) = (xs \<noteq> [])"
| "truthy (PDict kvs) = (kvs \<noteq> [])"

text \<open>
  \<^verbatim>\<open>v == year\<close> for an int \<open>year\<close>: numbers are compared by their exact values (a bool
  counts as 0 or 1), and a value of any other type is unequal.
\<close>

fun float_eq_int :: "pyfloat \<Rightarrow> int \<Rightarrow> bool" where
  "float_eq_int (Finite s m e) y =
     (let v = (if s then - int m else int m)
      in if 0 \<le> e then v * 2 ^ nat e = y else v = y * 2 ^ nat (- e))"
| "float_eq_int (Infinity s) y = False"
| "float_eq_int NaN y = False"

fun py_eq_int :: "pyval \<Rightarrow> int \<Rightarrow> bool" where
  "py_eq_int (PInt i) y = (i = y)"
| "py_eq_int (PBool b) y = ((if b then 1 else 0) = y)"
| "py_eq_int (PFloat f) y = float_eq_int f y"
| "py_eq_int v y = False"

text \<open>\<^verbatim>\<open>v == s\<close> for a string \<open>s\<close>: only an equal string is equal.\<close>

fun py_eq_str :: "pyval \<Rightarrow> string \<Rightarrow> bool" where
  "py_eq_str (PStr t) s = (t = s)"
| "py_eq_str v s = False"

text \<open>\<^verbatim>\<open>str(v)\<close>, which an f-string applies to a value without a format.\<close>

fun py_str :: "runtime \<Rightarrow> pyval \<Rightarrow> string" where
  "py_str rt PNone = ''None''"
| "py_str rt (PBool b) = (if b then ''True'' else ''False'')"
| "py_str rt (PInt i) = str_int i"
| "py_str rt (PStr s) = s"
| "py_str rt v = repr_of rt v"

text \<open>
  \<^verbatim>\<open>format(v, " ,")\<close>, which the f-string \<^verbatim>\<open>{v: ,}\<close> applies. Only numbers have this
  format: a string refuses the comma with a \<^verbatim>\<open>ValueError\<close> (the text is CPython's), and
  \<^verbatim>\<open>None\<close>, lists and dicts refuse every non-empty format with a \<^verbatim>\<open>TypeError\<close>. A bool
  is an int and is formatted as 0 or 1.
\<close>

fun py_format :: "runtime \<Rightarrow> pyval \<Rightarrow> pyexc + string" where
  "py_format rt (PInt i) = Inr (format_int i)"
| "py_format rt (PBool b) = Inr (format_int (if b then 1 else 0))"
| "py_format rt (PFloat f) = Inr (format_float rt f)"
| "py_format rt (PStr s) =
     Inl (ValueError (''Cannot specify '' @ [CHR 0x27] @ '','' @ [CHR 0x27] @ '' with ''
                      @ [CHR 0x27] @ ''s'' @ [CHR 0x27] @ ''.''))"
| "py_format rt PNone = Inl (TypeError ''unsupported format string passed to NoneType.__format__'')"
| "py_format rt (PList xs) = Inl (TypeError ''unsupported format string passed to list.__format__'')"
| "py_format rt (PDict kvs) = Inl (TypeError ''unsupported format string passed to dict.__format__'')"

text \<open>\<^verbatim>\<open>type(v).__name__\<close>, for the text of an \<^verbatim>\<open>AttributeError\<close>.\<close>

fun type_name :: "pyval \<Rightarrow> string" where
  "type_name PNone = ''NoneType''"
| "type_name (PBool b) = ''bool''"
| "type_name (PInt i) = ''int''"
| "type_name (PFloat f) = ''float''"
| "type_name (PStr s) = ''str''"
| "type_name (PList xs) = ''list''"
| "type_name (PDict kvs) = ''dict''"

text \<open>\<^verbatim>\<open>d.get(k)\<close> and \<^verbatim>\<open>d.get(k, default)\<close> on the items of a dict.\<close>

definition dict_get :: "(string \<times> pyval) list \<Rightarrow> string \<Rightarrow> pyval" where
  "dict_get kvs k = (case map_of kvs k of None \<Rightarrow> PNone | Some v \<Rightarrow> v)"

definition dict_get_default :: "(string \<times> pyval) list \<Rightarrow> string \<Rightarrow> pyval \<Rightarrow> pyval" where
  "dict_get_default kvs k d = (case map_of kvs k of None \<Rightarrow> d | Some v \<Rightarrow> v)"

section \<open>The program\<close>

subsection \<open>Requests, responses and what a run does\<close>

text \<open>
  The call \<^verbatim>\<open>requests.get(url, headers=headers, timeout=10)\<close> is the program's only
  contact with the network. The network is a parameter \<open>net\<close> of the model: it maps the
  request to the exception the call raises or to the response object. A response has its
  status code and reason, and the outcome of \<^verbatim>\<open>json()\<close>, which raises or returns the
  decoded body. \<^verbatim>\<open>raise_for_status()\<close> belongs to the \<^verbatim>\<open>requests\<close> library: as the library
  documents it, it raises \<open>HTTPError\<close> for the status codes from 400 to 599 and returns
  for every other code.
\<close>

record http_request =
  url :: string
  headers :: "(string \<times> string) list"
  timeout :: nat

record response =
  status_code :: nat
  reason :: string
  json :: "pyexc + pyval"

definition raise_for_status :: "response \<Rightarrow> pyexc option" where
  "raise_for_status resp =
     (if 400 \<le> status_code resp \<and> status_code resp < 600
      then Some (HTTPError (status_code resp) (reason resp)) else None)"

type_synonym network = "http_request \<Rightarrow> pyexc + response"

text \<open>
  A run is observed through its events, in order: a \<^verbatim>\<open>print\<close> call with its argument
  (the line is written with a newline after it), the prompt of an \<^verbatim>\<open>input\<close> call, and the
  HTTP request issued.
\<close>

datatype event = Print string | Prompt string | HttpGet http_request

fun requests_of :: "event list \<Rightarrow> http_request list" where
  "requests_of [] = []"
| "requests_of (HttpGet r # evs) = r # requests_of evs"
| "requests_of (ev # evs) = requests_of evs"

fun written :: "runtime \<Rightarrow> event \<Rightarrow> string" where
  "written rt (Print s) = s @ [newline]"
| "written rt (Prompt s) = (if prompt_on_stdout rt then s else [])"
| "written rt (HttpGet r) = []"

definition stdout :: "runtime \<Rightarrow> event list \<Rightarrow> string" where
  "stdout rt evs = concat (map (written rt) evs)"

text \<open>The dict that \<^verbatim>\<open>get_account_payables\<close> returns has eight fixed keys.\<close>

record summary =
  ticker :: pyval
  company_name :: pyval
  year :: pyval
  period :: pyval
  filing_date :: pyval
  accepted_date :: pyval
  accountPayables :: pyval
  currency :: pyval

subsection \<open>\<^verbatim>\<open>get_account_payables\<close>\<close>

text \<open>Lines 24 to 31: the three checks, in the source's order.\<close>

fun is_str :: "pyval \<Rightarrow> bool" where
  "is_str (PStr s) = True"
| "is_str v = False"

fun is_int :: "pyval \<Rightarrow> bool" where
  "is_int (PInt i) = True"
| "is_int (PBool b) = True"
| "is_int v = False"

fun int_value :: "pyval \<Rightarrow> int" where
  "int_value (PInt i) = i"
| "int_value (PBool b) = (if b then 1 else 0)"
| "int_value v = 0"

fun str_value :: "pyval \<Rightarrow> string" where
  "str_value (PStr s) = s"
| "str_value v = []"

definition validate :: "pyval \<Rightarrow> pyval \<Rightarrow> pyval \<Rightarrow> pyexc + (string \<times> int \<times> string)" where
  "validate tick yr api_key =
     (if \<not> truthy tick \<or> \<not> is_str tick then
        Inl (ValueError ''Ticker must be a non-empty string'')
      else if \<not> is_int yr \<or> int_value yr < 1900 \<or> int_value yr > 2100 then
        Inl (ValueError ''Year must be a valid integer between 1900 and 2100'')
      else if \<not> truthy api_key \<or> \<not> is_str api_key then
        Inl (ValueError ''API key must be a non-empty string'')
      else Inr (str_value tick, int_value yr, str_value api_key))"

text \<open>Lines 34 to 40 and 45: the URL, the headers and the timeout of the request.\<close>

definition request_for :: "string \<Rightarrow> http_request" where
  "request_for tick =
     \<lparr> url = ''https://ac-api-server.vercel.app/server/company/'' @ tick,
       headers = [(''x-api-key'', ''APIKEYINSERT''), (''Content-Type'', ''application/json'')],
       timeout = 10 \<rparr>"

text \<open>Lines 67 to 76: the projection of a record.\<close>

definition project :: "(string \<times> pyval) list \<Rightarrow> summary" where
  "project rec =
     \<lparr> ticker = dict_get rec ''symbol'',
       company_name = dict_get rec ''company_name'',
       year = dict_get rec ''calendarYear'',
       period = dict_get rec ''period'',
       filing_date = dict_get rec ''fillingDate'',
       accepted_date = dict_get rec ''acceptedDate'',
       accountPayables = dict_get rec ''accountPayables'',
       currency = dict_get rec ''reportedCurrency'' \<rparr>"

definition no_attribute_get :: "pyval \<Rightarrow> pyexc" where
  "no_attribute_get v =
     AttributeError ([CHR 0x27] @ type_name v @ [CHR 0x27] @ '' object has no attribute ''
                     @ [CHR 0x27] @ ''get'' @ [CHR 0x27])"

text \<open>
  Lines 64 to 77: the loop over the records. \<^verbatim>\<open>record.get\<close> on a record that is not a
  dict raises \<^verbatim>\<open>AttributeError\<close>.
\<close>

fun search_records :: "int \<Rightarrow> pyval list \<Rightarrow> pyexc + summary option" where
  "search_records yr [] = Inr None"
| "search_records yr (PDict rec # rest) =
     (if py_eq_int (dict_get rec ''calendarYear'') yr then Inr (Some (project rec))
      else search_records yr rest)"
| "search_records yr (v # rest) = Inl (no_attribute_get v)"

text \<open>Lines 52 to 81: the checks on the decoded body and the selection.\<close>

definition select_record :: "runtime \<Rightarrow> int \<Rightarrow> pyval \<Rightarrow> event list \<times> (pyexc + summary option)" where
  "select_record rt yr data =
     (case data of
        PDict payload \<Rightarrow>
          if \<not> py_eq_str (dict_get payload ''status'') ''success'' \<or> \<not> truthy (dict_get payload ''data'') then
            ([Print (''API Error: '' @ py_str rt (dict_get_default payload ''status'' (PStr ''Unknown error'')))],
             Inr None)
          else
            (case dict_get_default payload ''data'' (PList []) of
               PList financial_records \<Rightarrow>
                 (case search_records yr financial_records of
                    Inl e \<Rightarrow> ([], Inl e)
                  | Inr (Some result) \<Rightarrow> ([], Inr (Some result))
                  | Inr None \<Rightarrow> ([Print (''No data found for year '' @ str_int yr)], Inr None))
             | _ \<Rightarrow> ([Print ''Error: Expected data to be a list of records''], Inr None))
      | _ \<Rightarrow> ([], Inl (no_attribute_get data)))"

text \<open>
  Lines 44 to 81: the body of the \<^verbatim>\<open>try\<close> statement. It starts with the notice of
  line 44 and the request of line 45.
\<close>

definition fetching :: "string \<Rightarrow> event list" where
  "fetching tick =
     [Print (newline # ''Fetching data for '' @ tick @ ''...''), HttpGet (request_for tick)]"

definition try_body :: "runtime \<Rightarrow> network \<Rightarrow> string \<Rightarrow> int \<Rightarrow> event list \<times> (pyexc + summary option)" where
  "try_body rt net tick yr =
     (case net (request_for tick) of
        Inl e \<Rightarrow> (fetching tick, Inl e)
      | Inr resp \<Rightarrow>
          (case raise_for_status resp of
             Some e \<Rightarrow> (fetching tick, Inl e)
           | None \<Rightarrow>
               (case json resp of
                  Inl e \<Rightarrow> (fetching tick, Inl e)
                | Inr data \<Rightarrow>
                    (case select_record rt yr data of (evs, r) \<Rightarrow> (fetching tick @ evs, r)))))"

text \<open>Lines 83 to 97: the \<^verbatim>\<open>except\<close> clauses, in the source's order.\<close>

fun exc_text :: "pyexc \<Rightarrow> string" where
  "exc_text (ValueError m) = m"
| "exc_text (TypeError m) = m"
| "exc_text (AttributeError m) = m"
| "exc_text (UnicodeEncodeError m) = m"
| "exc_text (OtherException m) = m"
| "exc_text e = []"

fun handle_exception :: "string \<Rightarrow> pyexc \<Rightarrow> event" where
  "handle_exception tick RequestTimeout =
     Print (''Request timed out while fetching data for '' @ tick)"
| "handle_exception tick ConnectionFailure =
     Print (''Connection error while fetching data for '' @ tick)"
| "handle_exception tick (HTTPError code why) =
     Print (''HTTP Error: '' @ decimal code @ '' - '' @ why)"
| "handle_exception tick JSONDecodeError =
     Print ''Error: Could not parse API response as JSON''"
| "handle_exception tick e = Print (''Unexpected error: '' @ exc_text e)"

definition get_account_payables ::
  "runtime \<Rightarrow> network \<Rightarrow> pyval \<Rightarrow> pyval \<Rightarrow> pyval \<Rightarrow> event list \<times> (pyexc + summary option)" where
  "get_account_payables rt net tick yr api_key =
     (case validate tick yr api_key of
        Inl e \<Rightarrow> ([], Inl e)
      | Inr (t, y, k) \<Rightarrow>
          (case try_body rt net t y of
             (evs, Inl e) \<Rightarrow> (evs @ [handle_exception t e], Inr None)
           | (evs, Inr result) \<Rightarrow> (evs, Inr result)))"

subsection \<open>\<^verbatim>\<open>display_account_payables\<close>\<close>

definition rule70 :: string where
  "rule70 = replicate 70 (CHR ''='')"

definition dash70 :: string where
  "dash70 = replicate 70 (CHR ''-'')"

text \<open>
  Lines 111 to 120, which print without a format, and then lines 121 and 122. The
  f-string of line 121 is evaluated before anything of that line is written, so an
  exception of \<^verbatim>\<open>format\<close> leaves the lines up to the divider on the output.
\<close>

definition report_head :: "runtime \<Rightarrow> summary \<Rightarrow> event list" where
  "report_head rt result =
     [Print (newline # rule70),
      Print ''ACCOUNT PAYABLES INFORMATION'',
      Print rule70,
      Print (''Company:             '' @ py_str rt (company_name result)),
      Print (''Ticker:              '' @ py_str rt (ticker result)),
      Print (''Year:                '' @ py_str rt (year result)),
      Print (''Period:              '' @ py_str rt (period result)),
      Print (''Filing Date:         '' @ py_str rt (filing_date result)),
      Print (''Currency:            '' @ py_str rt (currency result)),
      Print dash70]"

definition display_account_payables :: "runtime \<Rightarrow> summary option \<Rightarrow> event list \<times> (pyexc + unit)" where
  "display_account_payables rt res =
     (case res of
        None \<Rightarrow> ([Print ''No data to display''], Inr ())
      | Some result \<Rightarrow>
          (case py_format rt (accountPayables result) of
             Inl e \<Rightarrow> (report_head rt result, Inl e)
           | Inr payables \<Rightarrow>
               (report_head rt result @
                [Print (''Account Payables:     '' @ payables @ '' '' @ py_str rt (currency result)),
                 Print (rule70 @ [newline])],
                Inr ())))"

subsection \<open>\<^verbatim>\<open>main\<close>\<close>

text \<open>
  How the process ends: \<open>Exit n\<close> is \<^verbatim>\<open>sys.exit(n)\<close>, and the return of \<^verbatim>\<open>main\<close> is
  \<open>Exit 0\<close>; an exception that nothing catches ends the process with a traceback and
  status 1.
\<close>

datatype ending = Exit nat | Uncaught pyexc

fun exit_status :: "ending \<Rightarrow> nat" where
  "exit_status (Exit n) = n"
| "exit_status (Uncaught e) = 1"

text \<open>
  The marks U+2713 and U+2717 of lines 165 and 167, named by their UTF-8 bytes. \<^verbatim>\<open>print\<close>
  encodes the whole line before it writes: when standard output cannot encode the mark,
  nothing of the line is written and \<^verbatim>\<open>UnicodeEncodeError\<close> is raised.
\<close>

definition check_mark :: string where
  "check_mark = [CHR 0xE2, CHR 0x9C, CHR 0x93]"

definition ballot_x :: string where
  "ballot_x = [CHR 0xE2, CHR 0x9C, CHR 0x97]"

definition print_marked :: "runtime \<Rightarrow> string \<Rightarrow> string \<Rightarrow> pyexc + event" where
  "print_marked rt mark rest =
     (case encode_mark rt mark of
        Inl m \<Rightarrow> Inl (UnicodeEncodeError m)
      | Inr bytes \<Rightarrow> Inr (Print (bytes @ rest)))"

text \<open>
  Lines 169 to 171: \<^verbatim>\<open>except ValueError\<close> around the call of \<^verbatim>\<open>get_account_payables\<close>
  and the display of its result, which also catches the subclass
  \<^verbatim>\<open>UnicodeEncodeError\<close>. Any other exception leaves \<^verbatim>\<open>main\<close>. The exceptions that reach
  this handler are the \<^verbatim>\<open>ValueError\<close> of the validation, the \<^verbatim>\<open>ValueError\<close> or
  \<^verbatim>\<open>TypeError\<close> of \<^verbatim>\<open>format\<close>, and the \<^verbatim>\<open>UnicodeEncodeError\<close> of a mark.
\<close>

fun main_except :: "pyexc \<Rightarrow> event list \<times> ending" where
  "main_except (ValueError m) = ([Print (''Error: '' @ m)], Exit 1)"
| "main_except (UnicodeEncodeError m) = ([Print (''Error: '' @ m)], Exit 1)"
| "main_except e = ([], Uncaught e)"

text \<open>
  Lines 139 to 144 and 152: the banner with the prompt for the ticker, and the prompt for
  the year.
\<close>

definition banner :: "event list" where
  "banner =
     [Print (newline # rule70), Print ''COMPANY ACCOUNT PAYABLES FETCHER'', Print rule70,
      Prompt ''Enter company ticker (e.g., RELIANCE.NS): '']"

definition year_prompt :: event where
  "year_prompt = Prompt ''Enter the year (e.g., 2025): ''"

text \<open>
  Lines 162 to 171: what \<^verbatim>\<open>main\<close> does with the outcome of the call of
  \<^verbatim>\<open>get_account_payables\<close>, its result or its exception. The dict that the call returns is
  never empty, so \<^verbatim>\<open>if result\<close> on line 163 tests for \<^verbatim>\<open>None\<close>. An exception of the
  display or of line 165 reaches the handler of line 169 after what was printed before it.
\<close>

definition closing ::
  "runtime \<Rightarrow> string \<Rightarrow> int \<Rightarrow> pyexc + summary option \<Rightarrow> event list \<times> ending" where
  "closing rt tick yr outcome =
     (case outcome of
        Inl e \<Rightarrow> main_except e
      | Inr None \<Rightarrow>
          (case print_marked rt ballot_x
                  ('' Failed to retrieve data for '' @ tick @ '' in year '' @ str_int yr) of
             Inl e \<Rightarrow> main_except e
           | Inr notice \<Rightarrow> ([notice], Exit 0))
      | Inr (Some result) \<Rightarrow>
          (case display_account_payables rt (Some result) of
             (shown, Inl e) \<Rightarrow> (case main_except e of (out, fin) \<Rightarrow> (shown @ out, fin))
           | (shown, Inr u) \<Rightarrow>
               (case py_format rt (accountPayables result) of
                  Inl e \<Rightarrow> (case main_except e of (out, fin) \<Rightarrow> (shown @ out, fin))
                | Inr payables \<Rightarrow>
                    (case print_marked rt check_mark
                            ('' Successfully retrieved Account Payables:  '' @ payables) of
                       Inl e \<Rightarrow> (case main_except e of (out, fin) \<Rightarrow> (shown @ out, fin))
                     | Inr notice \<Rightarrow> (shown @ [notice], Exit 0)))))"

text \<open>
  The key that line 130 assigns is a parameter \<open>API_KEY\<close>: the operator replaces the
  placeholder in the script. \<open>ticker_line\<close> and \<open>year_line\<close> are the two lines the user
  enters at the prompts, as UTF-8 bytes; end of input at a prompt is outside the model.
\<close>

definition main :: "string \<Rightarrow> runtime \<Rightarrow> network \<Rightarrow> string \<Rightarrow> string \<Rightarrow> event list \<times> ending" where
  "main API_KEY rt net ticker_line year_line =
     (if API_KEY = ''INSERT YOUR API KEY'' then
        ([Print ''Error: Please set your API key in the script first.'',
          Print (''Replace '' @ [CHR 0x27] @ ''INSERT YOUR API KEY'' @ [CHR 0x27]
                 @ '' with your actual API key.'')],
         Exit 1)
      else
        let tick = str_upper rt (str_strip rt ticker_line)
        in if tick = [] then (banner @ [Print ''Error: Ticker cannot be empty''], Exit 1)
           else
             (case int_of_str rt (str_strip rt year_line) of
                None \<Rightarrow>
                  (banner @ [year_prompt, Print ''Error: Year must be a valid integer''], Exit 1)
              | Some yr \<Rightarrow>
                  (case get_account_payables rt net (PStr tick) (PInt yr) (PStr API_KEY) of
                     (evs, outcome) \<Rightarrow>
                       (case closing rt tick yr outcome of
                          (out, fin) \<Rightarrow> (banner @ [year_prompt] @ evs @ out, fin)))))"

section \<open>Concrete inputs\<close>

text \<open>
  The payload of the specification's examples, a payload in which the requested year occurs
  twice, and a network that answers every request with status 200 and a given decoded
  body. The theorems below hold for every runtime; \<open>plain_runtime\<close> is one with which they
  are evaluated: UTF-8 output with the prompts on it, and non-ASCII text left as it is.
\<close>

definition plain_runtime :: runtime where
  "plain_runtime =
     \<lparr> repr_of = (\<lambda>v. ''<repr>''), format_float = (\<lambda>f. ''<float>''),
       strip_other = (\<lambda>s. s), upper_other = (\<lambda>s. s), int_other = (\<lambda>s. None),
       encode_mark = (\<lambda>mark. Inr mark), prompt_on_stdout = True \<rparr>"

definition answering :: "pyval \<Rightarrow> network" where
  "answering data =
     (\<lambda>request. Inr \<lparr> status_code = 200, reason = ''OK'', json = Inr data \<rparr>)"

definition example_payload :: pyval where
  "example_payload =
     PDict [(''status'', PStr ''success''),
            (''data'', PList
               [PDict [(''calendarYear'', PInt 2024), (''accountPayables'', PInt 500)],
                PDict [(''calendarYear'', PInt 2025), (''accountPayables'', PInt 700),
                       (''symbol'', PStr ''X''), (''reportedCurrency'', PStr ''USD'')]])]"

definition year_2024 :: "(string \<times> pyval) list" where
  "year_2024 = [(''calendarYear'', PInt 2024), (''accountPayables'', PInt 500)]"

definition year_2025_first :: "(string \<times> pyval) list" where
  "year_2025_first = [(''calendarYear'', PInt 2025), (''accountPayables'', PInt 700)]"

definition year_2025_second :: "(string \<times> pyval) list" where
  "year_2025_second = [(''calendarYear'', PInt 2025), (''accountPayables'', PInt 900)]"

definition repeated_year_payload :: "(string \<times> pyval) list" where
  "repeated_year_payload =
     [(''status'', PStr ''success''),
      (''data'', PList (map PDict ([year_2024] @ year_2025_first # [year_2025_second])))]"

definition timing_out :: network where
  "timing_out = (\<lambda>request. Inl RequestTimeout)"

definition payables_missing_payload :: pyval where
  "payables_missing_payload =
     PDict [(''status'', PStr ''success''), (''data'', PList [PDict [(''calendarYear'', PInt 2025)]])]"

text \<open>
  Two characters that are the same letter in either case, for the ASCII letters: equal,
  or one is a lower-case letter and the other the letter 32 code points below it.
\<close>

definition is_lower :: "char \<Rightarrow> bool" where
  "is_lower c = (97 \<le> (of_char c :: nat) \<and> (of_char c :: nat) \<le> 122)"

definition case_pair :: "char \<Rightarrow> char \<Rightarrow> bool" where
  "case_pair c d = (is_lower c \<and> (of_char d :: nat) + 32 = of_char c)"

definition same_letter :: "char \<Rightarrow> char \<Rightarrow> bool" where
  "same_letter c d = (c = d \<or> case_pair c d \<or> case_pair d c)"



text \<open>
  Answers with the body of the example and another status: a 301 that the library hands
  back as it is, and a 500.
\<close>

definition answering_with :: "nat \<Rightarrow> string \<Rightarrow> pyval \<Rightarrow> network" where
  "answering_with code why data =
     (\<lambda>request. Inr \<lparr> status_code = code, reason = why, json = Inr data \<rparr>)"

text \<open>A payload whose first record has the year as the float 2025.0 and whose second has
  it as the int 2025.\<close>

definition float_year_record :: "(string \<times> pyval) list" where
  "float_year_record =
     [(''calendarYear'', PFloat (Finite False 2025 0)), (''accountPayables'', PInt 1)]"

definition int_year_record :: "(string \<times> pyval) list" where
  "int_year_record = [(''calendarYear'', PInt 2025), (''accountPayables'', PInt 2)]"

definition float_year_payload :: pyval where
  "float_year_payload =
     PDict [(''status'', PStr ''success''),
            (''data'', PList [PDict float_year_record, PDict int_year_record])]"

text \<open>
  The small and the capital sharp s, U+00DF and U+1E9E, as UTF-8 bytes, and a runtime
  whose \<^verbatim>\<open>upper\<close> does to them what Python's does: the small one becomes \<^verbatim>\<open>SS\<close>, the capital
  one stays.
\<close>

definition small_sharp_s :: string where
  "small_sharp_s = [CHR 0xC3, CHR 0x9F]"

definition capital_sharp_s :: string where
  "capital_sharp_s = [CHR 0xE1, CHR 0xBA, CHR 0x9E]"

definition sharp_s_runtime :: runtime where
  "sharp_s_runtime =
     plain_runtime \<lparr> upper_other := (\<lambda>s. if s = small_sharp_s then ''SS'' else s) \<rparr>"


section \<open>Properties\<close>

subsection \<open>Auxiliary facts\<close>

lemmas run_defs = get_account_payables_def validate_def try_body_def select_record_def
  dict_get_def dict_get_default_def project_def answering_def raise_for_status_def

lemma validate_Inr_iff:
  "(validate tick yr api_key = Inr (s, n, a)) =
   (tick = PStr s \<and> s \<noteq> [] \<and> yr = PInt n \<and> 1900 \<le> n \<and> n \<le> 2100 \<and> api_key = PStr a \<and> a \<noteq> [])"
  by (cases tick; cases yr; cases api_key) (auto simp: validate_def)

lemma validate_Inl:
  "validate tick yr api_key = Inl e \<Longrightarrow> \<exists>m. e = ValueError m"
  by (auto simp: validate_def split: if_splits)

lemma validate_cases:
  obtains m where "validate tick yr api_key = Inl (ValueError m)"
  | s n a where "validate tick yr api_key = Inr (s, n, a)"
proof (cases "validate tick yr api_key")
  case (Inl e)
  then show ?thesis using validate_Inl that(1) by blast
next
  case (Inr v)
  then show ?thesis using that(2) by (cases v) auto
qed

lemma handle_exception_Print: "\<exists>m. handle_exception s e = Print m"
  by (cases e) auto

lemma search_records_year:
  "search_records y recs = Inr (Some r) \<Longrightarrow> py_eq_int (year r) y"
  by (induction y recs rule: search_records.induct) (auto simp: project_def split: if_splits)

lemma search_records_first:
  "\<forall>p\<in>set before. \<not> py_eq_int (dict_get p ''calendarYear'') yr \<Longrightarrow>
   search_records yr (map PDict before @ recs) = search_records yr recs"
  by (induction before) auto

lemma py_eq_int_in_range:
  "1900 \<le> yr \<Longrightarrow> py_eq_int v yr = (v = PInt yr \<or> (\<exists>f. v = PFloat f \<and> float_eq_int f yr))"
  by (cases v) auto

lemma gap_valid:
  "validate tick yr api_key = Inr (s, n, a) \<Longrightarrow>
   get_account_payables rt net tick yr api_key =
     (case try_body rt net s n of
        (evs, Inl e) \<Rightarrow> (evs @ [handle_exception s e], Inr None)
      | (evs, Inr result) \<Rightarrow> (evs, Inr result))"
  by (simp add: get_account_payables_def)

lemma gap_never_raises:
  "validate tick yr api_key = Inr (s, n, a) \<Longrightarrow>
   \<exists>evs r. get_account_payables rt net tick yr api_key = (evs, Inr r)"
  by (auto simp: gap_valid split: prod.splits sum.splits)

lemma requests_of_append: "requests_of (xs @ ys) = requests_of xs @ requests_of ys"
  by (induction xs rule: requests_of.induct) auto

lemma handle_exception_no_request: "requests_of [handle_exception s e] = []"
  using handle_exception_Print [of s e] by auto

lemma select_record_no_request:
  "select_record rt y data = (evs, r) \<Longrightarrow> requests_of evs = []"
  by (auto simp: select_record_def split: pyval.splits if_splits sum.splits option.splits)

lemma try_body_requests:
  "try_body rt net s y = (evs, r) \<Longrightarrow> requests_of evs = [request_for s]"
  by (auto simp: try_body_def fetching_def requests_of_append
      split: sum.splits option.splits prod.splits dest: select_record_no_request)

lemma gap_requests:
  "validate tick yr api_key = Inr (s, n, a) \<Longrightarrow>
   requests_of (fst (get_account_payables rt net tick yr api_key)) = [request_for s]"
  by (auto simp: gap_valid requests_of_append handle_exception_no_request
      split: sum.splits prod.splits dest: try_body_requests)

lemma dict_get_default_eq:
  "dict_get kvs k = v \<Longrightarrow> v \<noteq> PNone \<Longrightarrow> dict_get_default kvs k d = v"
  by (auto simp: dict_get_def dict_get_default_def split: option.splits)

lemma select_record_records:
  assumes "dict_get payload ''status'' = PStr ''success''"
    and "dict_get payload ''data'' = PList recs" and "recs \<noteq> []"
  shows "select_record rt y (PDict payload) =
     (case search_records y recs of
        Inl e \<Rightarrow> ([], Inl e)
      | Inr (Some result) \<Rightarrow> ([], Inr (Some result))
      | Inr None \<Rightarrow> ([Print (''No data found for year '' @ str_int y)], Inr None))"
  using assms dict_get_default_eq [OF assms(2), of "PList []"]
  by (simp add: select_record_def)

lemma try_body_answered:
  assumes "net (request_for s) = Inr resp" and "raise_for_status resp = None"
    and "json resp = Inr data"
  shows "try_body rt net s y =
     (case select_record rt y data of (evs, r) \<Rightarrow> (fetching s @ evs, r))"
  using assms by (simp add: try_body_def)

lemma py_eq_str_iff: "py_eq_str v s = (v = PStr s)"
  by (cases v) auto

lemma select_record_None_prints:
  "select_record rt y data = (evs, Inr None) \<Longrightarrow> \<exists>m. evs = [Print m]"
  by (auto simp: select_record_def split: pyval.splits if_splits sum.splits option.splits)

lemma select_record_Inl_silent:
  "select_record rt y data = (evs, Inl e) \<Longrightarrow> evs = []"
  by (auto simp: select_record_def split: pyval.splits if_splits sum.splits option.splits)

lemma select_record_Some:
  "select_record rt y data = (evs, Inr (Some r)) \<Longrightarrow>
   \<exists>payload recs. data = PDict payload \<and> dict_get payload ''status'' = PStr ''success''
     \<and> dict_get payload ''data'' = PList recs \<and> search_records y recs = Inr (Some r)"
  by (auto simp: select_record_def dict_get_def dict_get_default_def py_eq_str_iff
      split: pyval.splits if_splits sum.splits option.splits)

lemma try_body_None_prints:
  "try_body rt net s y = (evs, Inr None) \<Longrightarrow> \<exists>m. evs = fetching s @ [Print m]"
  by (auto simp: try_body_def split: sum.splits option.splits prod.splits
      dest: select_record_None_prints)

lemma try_body_Inl:
  "try_body rt net s y = (evs, Inl e) \<Longrightarrow> evs = fetching s"
  by (auto simp: try_body_def split: sum.splits option.splits prod.splits
      dest: select_record_Inl_silent)

lemma try_body_Some:
  "try_body rt net s y = (evs, Inr (Some r)) \<Longrightarrow>
   \<exists>resp payload recs. net (request_for s) = Inr resp \<and> raise_for_status resp = None
     \<and> json resp = Inr (PDict payload) \<and> dict_get payload ''status'' = PStr ''success''
     \<and> dict_get payload ''data'' = PList recs \<and> search_records y recs = Inr (Some r)"
  by (auto simp: try_body_def split: sum.splits option.splits prod.splits
      dest: select_record_Some)

lemma gap_None_prints:
  assumes "validate tick yr api_key = Inr (s, n, a)"
    and "get_account_payables rt net tick yr api_key = (evs, Inr None)"
  shows "\<exists>m. evs = fetching s @ [Print m]"
proof (cases "try_body rt net s n")
  case (Pair tevs tr)
  show ?thesis
  proof (cases tr)
    case (Inl e)
    with Pair assms have "evs = tevs @ [handle_exception s e]" by (simp add: gap_valid)
    moreover have "tevs = fetching s" using Pair Inl try_body_Inl by blast
    ultimately show ?thesis using handle_exception_Print [of s e] by auto
  next
    case (Inr r)
    with Pair assms have "tevs = evs" "r = None" by (simp_all add: gap_valid)
    then show ?thesis using Pair Inr try_body_None_prints by blast
  qed
qed

lemma gap_Some:
  assumes "validate tick yr api_key = Inr (s, n, a)"
    and "get_account_payables rt net tick yr api_key = (evs, Inr (Some r))"
  shows "\<exists>resp payload recs. net (request_for s) = Inr resp \<and> raise_for_status resp = None
     \<and> json resp = Inr (PDict payload) \<and> dict_get payload ''status'' = PStr ''success''
     \<and> dict_get payload ''data'' = PList recs \<and> search_records n recs = Inr (Some r)"
proof -
  from assms have "\<exists>tevs. try_body rt net s n = (tevs, Inr (Some r))"
    by (auto simp: gap_valid split: prod.splits sum.splits)
  then show ?thesis using try_body_Some by blast
qed

lemma main_reaches_call:
  assumes "API_KEY \<noteq> ''INSERT YOUR API KEY''"
    and "str_upper rt (str_strip rt ticker_line) = s" and "s \<noteq> []"
    and "int_of_str rt (str_strip rt year_line) = Some n"
  shows "main API_KEY rt net ticker_line year_line =
     (case get_account_payables rt net (PStr s) (PInt n) (PStr API_KEY) of
        (evs, outcome) \<Rightarrow>
          (case closing rt s n outcome of
             (out, fin) \<Rightarrow> (banner @ [year_prompt] @ evs @ out, fin)))"
  using assms by (simp add: main_def Let_def)

lemma closing_no_data:
  "encode_mark rt ballot_x = Inr bytes \<Longrightarrow>
   closing rt s n (Inr None) =
     ([Print (bytes @ '' Failed to retrieve data for '' @ s @ '' in year '' @ str_int n)], Exit 0)"
  by (simp add: closing_def print_marked_def)

lemma main_no_data:
  assumes "API_KEY \<noteq> ''INSERT YOUR API KEY''"
    and "str_upper rt (str_strip rt ticker_line) = s" and "s \<noteq> []"
    and "int_of_str rt (str_strip rt year_line) = Some n"
    and "get_account_payables rt net (PStr s) (PInt n) (PStr API_KEY) = (evs, Inr None)"
    and "encode_mark rt ballot_x = Inr bytes"
  shows "main API_KEY rt net ticker_line year_line =
           (banner @ [year_prompt] @ evs
              @ [Print (bytes @ '' Failed to retrieve data for '' @ s
                        @ '' in year '' @ str_int n)], Exit 0)"
  using main_reaches_call [OF assms(1-4), of net] assms(5) closing_no_data [OF assms(6), of s n]
  by simp

lemma str_int_2099: "str_int 2099 = ''2099''"
  by code_simp

lemma str_int_2025: "str_int 2025 = ''2025''"
  by code_simp

lemma py_int_2025: "py_int (strip ''2025'') = Some 2025"
  by code_simp

lemma upper_strip_X: "upper (strip ''X'') = ''X''"
  by code_simp

lemma upper_strip_padded_x: "upper (strip '' x '') = ''X''"
  by code_simp

lemma ascii_examples:
  "is_ascii ''X''" "is_ascii '' x ''" "is_ascii ''2025''"
  by (simp_all add: is_ascii_def ascii_char_def)

lemma str_upper_strip_X: "str_upper rt (str_strip rt ''X'') = ''X''"
proof -
  have "strip ''X'' = ''X''" by code_simp
  moreover have "upper ''X'' = ''X''" by code_simp
  ultimately show ?thesis by (simp add: str_upper_def str_strip_def ascii_examples)
qed

lemma str_upper_strip_padded_x: "str_upper rt (str_strip rt '' x '') = ''X''"
proof -
  have "strip '' x '' = ''x''" by code_simp
  moreover have "is_ascii ''x''" by (simp add: is_ascii_def ascii_char_def)
  moreover have "upper ''x'' = ''X''" by code_simp
  ultimately show ?thesis by (simp add: str_upper_def str_strip_def ascii_examples)
qed

lemma int_of_str_2025: "int_of_str rt (str_strip rt ''2025'') = Some 2025"
proof -
  have "strip ''2025'' = ''2025''" by code_simp
  moreover have "py_int ''2025'' = Some 2025" by code_simp
  moreover have "length (filter is_digit ''2025'') \<le> 640" by (simp add: is_digit_def)
  ultimately show ?thesis by (simp add: int_of_str_def str_strip_def ascii_examples)
qed

subsection \<open>Validation\<close>

text \<open>
  C5. The call fails with a \<^verbatim>\<open>ValueError\<close>, and has then done nothing (no output and no
  request), exactly when the arguments are not a non-empty string, an int from 1900 to
  2100 and a non-empty string. The checks accept exactly these triples and hand the same
  three values on; a request is issued exactly when they accept. The years 1900 and 2100
  are accepted, 1899 and 2101 are rejected.
\<close>

theorem validation_exact:
  "(\<exists>m. get_account_payables rt net tick yr api_key = ([], Inl (ValueError m))) =
     (\<not> (\<exists>s n a. tick = PStr s \<and> s \<noteq> [] \<and> yr = PInt n \<and> 1900 \<le> n \<and> n \<le> 2100
                  \<and> api_key = PStr a \<and> a \<noteq> []))
   \<and> (validate tick yr api_key = Inr (s, n, a)) =
     (tick = PStr s \<and> s \<noteq> [] \<and> yr = PInt n \<and> 1900 \<le> n \<and> n \<le> 2100
      \<and> api_key = PStr a \<and> a \<noteq> [])
   \<and> (requests_of (fst (get_account_payables rt net tick yr api_key)) = []) =
     (\<exists>m. validate tick yr api_key = Inl (ValueError m))
   \<and> validate (PStr ''X'') (PInt 1900) (PStr ''k'') = Inr (''X'', 1900, ''k'')
   \<and> validate (PStr ''X'') (PInt 2100) (PStr ''k'') = Inr (''X'', 2100, ''k'')
   \<and> validate (PStr ''X'') (PInt 1899) (PStr ''k'') =
       Inl (ValueError ''Year must be a valid integer between 1900 and 2100'')
   \<and> validate (PStr ''X'') (PInt 2101) (PStr ''k'') =
       Inl (ValueError ''Year must be a valid integer between 1900 and 2100'')"
proof -
  let ?G = "get_account_payables rt net tick yr api_key"
  let ?ok = "\<exists>s n a. tick = PStr s \<and> s \<noteq> [] \<and> yr = PInt n \<and> 1900 \<le> n \<and> n \<le> 2100
                  \<and> api_key = PStr a \<and> a \<noteq> []"
  have ok_iff: "?ok = (\<exists>s n a. validate tick yr api_key = Inr (s, n, a))"
    by (simp add: validate_Inr_iff)
  have fails: "(\<exists>m. ?G = ([], Inl (ValueError m))) = (\<not> ?ok)"
  proof (cases rule: validate_cases [of tick yr api_key])
    case (1 m)
    then show ?thesis unfolding ok_iff by (simp add: get_account_payables_def)
  next
    case (2 s n a)
    obtain evs r where "?G = (evs, Inr r)" using gap_never_raises [OF 2] by blast
    then show ?thesis unfolding ok_iff using 2 by auto
  qed
  have calls: "(requests_of (fst ?G) = []) = (\<exists>m. validate tick yr api_key = Inl (ValueError m))"
  proof (cases rule: validate_cases [of tick yr api_key])
    case (1 m)
    then show ?thesis by (simp add: get_account_payables_def)
  next
    case (2 s n a)
    then show ?thesis using gap_requests [OF 2, of rt net] by simp
  qed
  show ?thesis
    using fails calls by (simp add: validate_Inr_iff) (simp add: validate_def)
qed

theorem validation_exact_witness:
  "(\<exists>m. get_account_payables plain_runtime (answering example_payload)
           (PStr []) (PInt 2025) (PStr ''k'') = ([], Inl (ValueError m)))
   \<and> \<not> (\<exists>m. get_account_payables plain_runtime (answering example_payload)
           (PStr ''X'') (PInt 2025) (PStr ''k'') = ([], Inl (ValueError m)))"
  using validation_exact [of plain_runtime "answering example_payload" "PStr []" "PInt 2025" "PStr ''k''"]
    validation_exact [of plain_runtime "answering example_payload" "PStr ''X''" "PInt 2025" "PStr ''k''"]
  by simp

subsection \<open>Selection of the record\<close>

lemma year_equality_examples:
  "py_eq_int (PInt 2025) 2025"
  "py_eq_int (PFloat (Finite False 2025 0)) 2025"
  "\<not> py_eq_int (PStr ''2025'') 2025"
  "\<not> py_eq_int (PInt 2024) 2025"
  "\<not> py_eq_int PNone 2025"
  by simp_all

text \<open>
  C2, as amended. The records are scanned in order and the projection of the first record
  whose \<^verbatim>\<open>calendarYear\<close> equals the requested year under Python's \<^verbatim>\<open>==\<close> is returned,
  whatever follows it in the list: with a validated call, an answer that
  \<^verbatim>\<open>raise_for_status\<close> lets pass and whose body has status \<^verbatim>\<open>"success"\<close> and a list of
  dicts as data, no match among the records \<open>before\<close> and a match at \<open>rec\<close>, the result is
  the projection of \<open>rec\<close>. For a validated year, a field equals it exactly when it is that
  int, or a float with exactly that value; a string or any other value is never converted.
\<close>

theorem first_match_wins:
  assumes valid: "validate tick yr api_key = Inr (s, n, a)"
    and answer: "net (request_for s) = Inr resp" "raise_for_status resp = None"
                "json resp = Inr (PDict payload)"
    and shape: "dict_get payload ''status'' = PStr ''success''"
               "dict_get payload ''data'' = PList (map PDict (before @ rec # rest))"
    and before: "\<forall>p\<in>set before. \<not> py_eq_int (dict_get p ''calendarYear'') n"
    and match: "py_eq_int (dict_get rec ''calendarYear'') n"
  shows "get_account_payables rt net tick yr api_key = (fetching s, Inr (Some (project rec)))
         \<and> (\<forall>v. py_eq_int v n = (v = PInt n \<or> (\<exists>f. v = PFloat f \<and> float_eq_int f n)))"
proof -
  have "search_records n (map PDict (before @ rec # rest)) = Inr (Some (project rec))"
    using search_records_first [OF before, of "PDict rec # map PDict rest"] match by simp
  then have "select_record rt n (PDict payload) = ([], Inr (Some (project rec)))"
    using select_record_records [OF shape, of rt n] by simp
  then have "try_body rt net s n = (fetching s, Inr (Some (project rec)))"
    using try_body_answered [of net s resp "PDict payload" rt n] answer by simp
  then have run: "get_account_payables rt net tick yr api_key = (fetching s, Inr (Some (project rec)))"
    using gap_valid [OF valid, of rt net] by simp
  have "1900 \<le> n" using valid by (simp add: validate_Inr_iff)
  then show ?thesis using run py_eq_int_in_range by blast
qed

theorem first_match_wins_witness:
  "get_account_payables plain_runtime (answering (PDict repeated_year_payload))
     (PStr ''X'') (PInt 2025) (PStr ''k'')
   = (fetching ''X'', Inr (Some (project year_2025_first)))"
proof -
  have valid: "validate (PStr ''X'') (PInt 2025) (PStr ''k'') = Inr (''X'', 2025, ''k'')"
    by (simp add: validate_def)
  have answer: "answering (PDict repeated_year_payload) (request_for ''X'')
      = Inr \<lparr> status_code = 200, reason = ''OK'', json = Inr (PDict repeated_year_payload) \<rparr>"
    by (simp add: answering_def)
  have passes: "raise_for_status
      \<lparr> status_code = 200, reason = ''OK'', json = Inr (PDict repeated_year_payload) \<rparr> = None"
    by (simp add: raise_for_status_def)
  have body: "json \<lparr> status_code = 200, reason = ''OK'', json = Inr (PDict repeated_year_payload) \<rparr>
      = Inr (PDict repeated_year_payload)"
    by simp
  have status: "dict_get repeated_year_payload ''status'' = PStr ''success''"
    by (simp add: repeated_year_payload_def dict_get_def)
  have data: "dict_get repeated_year_payload ''data''
      = PList (map PDict ([year_2024] @ year_2025_first # [year_2025_second]))"
    by (simp add: repeated_year_payload_def dict_get_def)
  have before: "\<forall>p\<in>set [year_2024]. \<not> py_eq_int (dict_get p ''calendarYear'') 2025"
    by (simp add: year_2024_def dict_get_def)
  have match: "py_eq_int (dict_get year_2025_first ''calendarYear'') 2025"
    by (simp add: year_2025_first_def dict_get_def)
  show ?thesis
    using first_match_wins [where net = "answering (PDict repeated_year_payload)"
        and resp = "\<lparr> status_code = 200, reason = ''OK'', json = Inr (PDict repeated_year_payload) \<rparr>"
        and rt = plain_runtime, OF valid answer passes body status data before match]
    by simp
qed

text \<open>
  The claim as it was worded, that the record returned is the first whose field is the
  integer year itself, fails where a float of the same value stands earlier in the list:
  the record with \<^verbatim>\<open>2025.0\<close> is returned, whose field is not the int 2025, and not the
  record with the int 2025 that follows it.
\<close>

theorem float_year_counterexample:
  "get_account_payables plain_runtime (answering float_year_payload)
     (PStr ''X'') (PInt 2025) (PStr ''k'')
     = (fetching ''X'', Inr (Some (project float_year_record)))
   \<and> dict_get float_year_record ''calendarYear'' \<noteq> PInt 2025
   \<and> dict_get int_year_record ''calendarYear'' = PInt 2025
   \<and> project float_year_record \<noteq> project int_year_record"
  by (simp add: run_defs float_year_payload_def float_year_record_def int_year_record_def)

text \<open>
  C3. With the example payload, the year 2025 gives the summary with
  \<^verbatim>\<open>accountPayables\<close> 700, currency \<^verbatim>\<open>"USD"\<close> and ticker \<^verbatim>\<open>"X"\<close>; the year is 2025 and the
  fields missing from the record are \<^verbatim>\<open>None\<close>. The year 2099 gives no data, with the notice
  of line 80.
\<close>

theorem example_payload_selection:
  "get_account_payables rt (answering example_payload) (PStr ''X'') (PInt 2025) (PStr ''k'') =
     (fetching ''X'',
      Inr (Some \<lparr> ticker = PStr ''X'', company_name = PNone, year = PInt 2025, period = PNone,
                  filing_date = PNone, accepted_date = PNone, accountPayables = PInt 700,
                  currency = PStr ''USD'' \<rparr>))
   \<and> get_account_payables rt (answering example_payload) (PStr ''X'') (PInt 2099) (PStr ''k'') =
     (fetching ''X'' @ [Print ''No data found for year 2099''], Inr None)"
  by (simp add: run_defs example_payload_def str_int_2099)

theorem example_payload_selection_witness:
  "snd (get_account_payables plain_runtime (answering example_payload)
          (PStr ''X'') (PInt 2025) (PStr ''k'')) =
     Inr (Some \<lparr> ticker = PStr ''X'', company_name = PNone, year = PInt 2025, period = PNone,
                  filing_date = PNone, accepted_date = PNone, accountPayables = PInt 700,
                  currency = PStr ''USD'' \<rparr>)
   \<and> snd (get_account_payables plain_runtime (answering example_payload)
          (PStr ''X'') (PInt 2099) (PStr ''k'')) = Inr None"
  using example_payload_selection [of plain_runtime] by simp

text \<open>
  C9. A summary that \<^verbatim>\<open>get_account_payables\<close> returns has a \<^verbatim>\<open>year\<close> field equal to the
  requested year: the requested year is an int \<open>n\<close>, and the field is \<open>n\<close> under the
  comparison that selected the record, that is the int \<open>n\<close> or a float of that value.
\<close>

theorem summary_year_is_requested_year:
  assumes "get_account_payables rt net tick yr api_key = (evs, Inr (Some result))"
  shows "\<exists>n. yr = PInt n \<and> py_eq_int (year result) n
           \<and> (year result = PInt n \<or> (\<exists>f. year result = PFloat f \<and> float_eq_int f n))"
proof (cases rule: validate_cases [of tick yr api_key])
  case (1 m)
  with assms show ?thesis by (simp add: get_account_payables_def)
next
  case (2 s n a)
  then have yr: "yr = PInt n" and range: "1900 \<le> n" by (simp_all add: validate_Inr_iff)
  obtain recs where "search_records n recs = Inr (Some result)"
    using gap_Some [OF 2 assms] by blast
  then have "py_eq_int (year result) n" using search_records_year by blast
  then show ?thesis using yr py_eq_int_in_range [OF range] by auto
qed

theorem summary_year_is_requested_year_witness:
  "\<exists>result. get_account_payables plain_runtime (answering example_payload)
       (PStr ''X'') (PInt 2025) (PStr ''k'') = (fetching ''X'', Inr (Some result))
     \<and> py_eq_int (year result) 2025 \<and> year result = PInt 2025"
proof -
  obtain result where run: "get_account_payables plain_runtime (answering example_payload)
       (PStr ''X'') (PInt 2025) (PStr ''k'') = (fetching ''X'', Inr (Some result))"
    and field: "year result = PInt 2025"
    by (simp add: run_defs example_payload_def)
  from summary_year_is_requested_year [OF run] have "py_eq_int (year result) 2025" by simp
  with run field show ?thesis by blast
qed

subsection \<open>The request\<close>

text \<open>
  C1. The claim is that the \<^verbatim>\<open>x-api-key\<close> header carries the \<^verbatim>\<open>api_key\<close> argument. Line 38
  writes the fixed text \<^verbatim>\<open>APIKEYINSERT\<close> into the header instead: for the validated call
  with the key \<^verbatim>\<open>secret\<close>, the one request issued carries \<^verbatim>\<open>APIKEYINSERT\<close>, whatever the
  network does.
\<close>

theorem api_key_header_is_fixed_text:
  "map (\<lambda>r. map_of (headers r) ''x-api-key'')
       (requests_of (fst (get_account_payables rt net (PStr ''X'') (PInt 2025) (PStr ''secret''))))
     = [Some ''APIKEYINSERT'']
   \<and> validate (PStr ''X'') (PInt 2025) (PStr ''secret'') = Inr (''X'', 2025, ''secret'')"
proof -
  have v: "validate (PStr ''X'') (PInt 2025) (PStr ''secret'') = Inr (''X'', 2025, ''secret'')"
    by (simp add: validate_def)
  show ?thesis using gap_requests [OF v, of rt net] v by (simp add: request_for_def)
qed

theorem api_key_header_is_fixed_text_witness:
  "map (\<lambda>r. map_of (headers r) ''x-api-key'')
       (requests_of (fst (get_account_payables plain_runtime (answering example_payload)
                            (PStr ''X'') (PInt 2025) (PStr ''secret''))))
     \<noteq> [Some ''secret'']"
  using api_key_header_is_fixed_text [of plain_runtime "answering example_payload"] by simp

subsection \<open>Failures after validation\<close>

lemma raise_for_status_None:
  "(raise_for_status resp = None) = (\<not> (400 \<le> status_code resp \<and> status_code resp < 600))"
  by (simp add: raise_for_status_def)

lemma gap_bad_status:
  assumes "validate tick yr api_key = Inr (s, n, a)" and "net (request_for s) = Inr resp"
    and "400 \<le> status_code resp" and "status_code resp < 600"
  shows "get_account_payables rt net tick yr api_key =
     (fetching s @ [Print (''HTTP Error: '' @ decimal (status_code resp) @ '' - '' @ reason resp)],
      Inr None)"
  using assms by (simp add: gap_valid try_body_def raise_for_status_def)

text \<open>
  C4, as amended. After a successful validation \<^verbatim>\<open>get_account_payables\<close> never raises,
  whatever the network does. A summary is returned only when the request and \<^verbatim>\<open>json\<close>
  raised nothing, the status code is outside 400 to 599, the body is a dict with status
  \<^verbatim>\<open>"success"\<close> whose data is a list, and the search found a record; so a timeout, a
  connection failure, a body that is not JSON, any other exception, a status other than
  success, empty or missing data, data that is not a list and a year without a record all
  give \<^verbatim>\<open>None\<close>. A status code from 400 to 599 gives \<^verbatim>\<open>None\<close> with the diagnostic of line
  90; any other code, 2xx or not, is treated alike. Every \<^verbatim>\<open>None\<close> comes with one
  diagnostic printed after the request, and \<^verbatim>\<open>main\<close> then prints its notice and ends with
  status 0 where standard output can encode the mark of the notice.
\<close>

theorem failures_become_no_data:
  assumes valid: "validate tick yr api_key = Inr (s, n, a)"
  shows "(\<exists>evs r. get_account_payables rt net tick yr api_key = (evs, Inr r))
    \<and> (\<forall>evs. get_account_payables rt net tick yr api_key = (evs, Inr None) \<longrightarrow>
          (\<exists>m. evs = fetching s @ [Print m]))
    \<and> (\<forall>evs r. get_account_payables rt net tick yr api_key = (evs, Inr (Some r)) \<longrightarrow>
          (\<exists>resp payload recs.
              net (request_for s) = Inr resp
            \<and> \<not> (400 \<le> status_code resp \<and> status_code resp < 600)
            \<and> json resp = Inr (PDict payload)
            \<and> dict_get payload ''status'' = PStr ''success''
            \<and> dict_get payload ''data'' = PList recs
            \<and> search_records n recs = Inr (Some r)))
    \<and> (\<forall>resp. net (request_for s) = Inr resp
            \<and> 400 \<le> status_code resp \<and> status_code resp < 600 \<longrightarrow>
          get_account_payables rt net tick yr api_key =
            (fetching s @ [Print (''HTTP Error: '' @ decimal (status_code resp) @ '' - ''
                                  @ reason resp)],
             Inr None))
    \<and> (\<forall>evs ticker_line year_line bytes.
          get_account_payables rt net tick yr api_key = (evs, Inr None)
          \<and> a \<noteq> ''INSERT YOUR API KEY''
          \<and> str_upper rt (str_strip rt ticker_line) = s
          \<and> int_of_str rt (str_strip rt year_line) = Some n
          \<and> encode_mark rt ballot_x = Inr bytes \<longrightarrow>
          main a rt net ticker_line year_line =
            (banner @ [year_prompt] @ evs
               @ [Print (bytes @ '' Failed to retrieve data for '' @ s
                         @ '' in year '' @ str_int n)],
             Exit 0))"
proof -
  have v: "tick = PStr s" "yr = PInt n" "api_key = PStr a" "s \<noteq> []"
    using valid by (simp_all add: validate_Inr_iff)
  have never: "\<exists>evs r. get_account_payables rt net tick yr api_key = (evs, Inr r)"
    using gap_never_raises [OF valid] .
  have diag: "\<forall>evs. get_account_payables rt net tick yr api_key = (evs, Inr None) \<longrightarrow>
          (\<exists>m. evs = fetching s @ [Print m])"
    using gap_None_prints [OF valid] by blast
  have found: "\<forall>evs r. get_account_payables rt net tick yr api_key = (evs, Inr (Some r)) \<longrightarrow>
          (\<exists>resp payload recs.
              net (request_for s) = Inr resp
            \<and> \<not> (400 \<le> status_code resp \<and> status_code resp < 600)
            \<and> json resp = Inr (PDict payload)
            \<and> dict_get payload ''status'' = PStr ''success''
            \<and> dict_get payload ''data'' = PList recs
            \<and> search_records n recs = Inr (Some r))"
    using gap_Some [OF valid, of rt net] unfolding raise_for_status_None by blast
  have status: "\<forall>resp. net (request_for s) = Inr resp
            \<and> 400 \<le> status_code resp \<and> status_code resp < 600 \<longrightarrow>
          get_account_payables rt net tick yr api_key =
            (fetching s @ [Print (''HTTP Error: '' @ decimal (status_code resp) @ '' - ''
                                  @ reason resp)],
             Inr None)"
    using gap_bad_status [OF valid] by blast
  have ends: "\<forall>evs ticker_line year_line bytes.
          get_account_payables rt net tick yr api_key = (evs, Inr None)
          \<and> a \<noteq> ''INSERT YOUR API KEY''
          \<and> str_upper rt (str_strip rt ticker_line) = s
          \<and> int_of_str rt (str_strip rt year_line) = Some n
          \<and> encode_mark rt ballot_x = Inr bytes \<longrightarrow>
          main a rt net ticker_line year_line =
            (banner @ [year_prompt] @ evs
               @ [Print (bytes @ '' Failed to retrieve data for '' @ s
                         @ '' in year '' @ str_int n)],
             Exit 0)"
    using main_no_data [of a rt _ s _ n net] v by blast
  show ?thesis using never diag found status ends by (intro conjI)
qed

theorem failures_become_no_data_witness:
  "get_account_payables plain_runtime timing_out (PStr ''X'') (PInt 2025) (PStr ''k'')
     = (fetching ''X'' @ [Print ''Request timed out while fetching data for X''], Inr None)
   \<and> get_account_payables plain_runtime (answering_with 500 ''Internal Server Error'' example_payload)
       (PStr ''X'') (PInt 2025) (PStr ''k'')
     = (fetching ''X'' @ [Print ''HTTP Error: 500 - Internal Server Error''], Inr None)
   \<and> main ''k'' plain_runtime timing_out '' x '' ''2025'' =
         (banner @ [year_prompt]
            @ (fetching ''X'' @ [Print ''Request timed out while fetching data for X''])
            @ [Print (ballot_x @ '' Failed to retrieve data for X in year 2025'')],
          Exit 0)"
proof -
  have valid: "validate (PStr ''X'') (PInt 2025) (PStr ''k'') = Inr (''X'', 2025, ''k'')"
    by (simp add: validate_def)
  have run: "get_account_payables plain_runtime timing_out (PStr ''X'') (PInt 2025) (PStr ''k'')
     = (fetching ''X'' @ [Print ''Request timed out while fetching data for X''], Inr None)"
    by (simp add: run_defs timing_out_def)
  have code: "decimal 500 = ''500''" by code_simp
  have mark: "encode_mark plain_runtime ballot_x = Inr ballot_x"
    by (simp add: plain_runtime_def)
  note all = failures_become_no_data [OF valid, of plain_runtime timing_out]
  note bad = failures_become_no_data [OF valid, of plain_runtime
      "answering_with 500 ''Internal Server Error'' example_payload"]
  have ended: "main ''k'' plain_runtime timing_out '' x '' ''2025'' =
         (banner @ [year_prompt]
            @ (fetching ''X'' @ [Print ''Request timed out while fetching data for X''])
            @ [Print (ballot_x @ '' Failed to retrieve data for '' @ ''X''
                      @ '' in year '' @ str_int 2025)],
          Exit 0)"
    using all run str_upper_strip_padded_x [of plain_runtime] int_of_str_2025 [of plain_runtime]
      mark by blast
  have refused: "get_account_payables plain_runtime
       (answering_with 500 ''Internal Server Error'' example_payload)
       (PStr ''X'') (PInt 2025) (PStr ''k'')
     = (fetching ''X'' @ [Print ''HTTP Error: 500 - Internal Server Error''], Inr None)"
    using bad by (simp add: answering_with_def code)
  show ?thesis using run refused ended by (simp add: str_int_2025)
qed

text \<open>
  The claim as it was worded, that every status other than 2xx gives \<^verbatim>\<open>None\<close> and a
  diagnostic, fails for a status that \<^verbatim>\<open>raise_for_status\<close> lets pass: an answer with
  status 301 and the body of the example gives the summary for 2025 and no diagnostic.
\<close>

theorem redirect_status_counterexample:
  "get_account_payables plain_runtime (answering_with 301 ''Moved Permanently'' example_payload)
     (PStr ''X'') (PInt 2025) (PStr ''k'') =
     (fetching ''X'',
      Inr (Some \<lparr> ticker = PStr ''X'', company_name = PNone, year = PInt 2025, period = PNone,
                  filing_date = PNone, accepted_date = PNone, accountPayables = PInt 700,
                  currency = PStr ''USD'' \<rparr>))"
  by (simp add: run_defs answering_with_def example_payload_def)

subsection \<open>The report and the exit status\<close>

lemma display_no_summary:
  "display_account_payables rt None = ([Print ''No data to display''], Inr ())"
  by (simp add: display_account_payables_def)

lemma display_int_payables:
  "accountPayables result = PInt i \<Longrightarrow>
   display_account_payables rt (Some result) =
     (report_head rt result @
      [Print (''Account Payables:     '' @ format_int i @ '' '' @ py_str rt (currency result)),
       Print (rule70 @ [newline])],
      Inr ())"
  by (simp add: display_account_payables_def)

lemma format_int_example: "format_int 1234 = '' 1,234''"
  by code_simp

lemma format_int_negative: "format_int (- 45) = ''-45''"
  by code_simp

lemma display_none_payables:
  "display_account_payables rt (Some (project [(''calendarYear'', PInt 2025)])) =
     (report_head rt (project [(''calendarYear'', PInt 2025)]),
      Inl (TypeError ''unsupported format string passed to NoneType.__format__''))"
  by (simp add: display_account_payables_def project_def dict_get_def)

lemma run_payables_missing:
  "get_account_payables rt (answering payables_missing_payload) (PStr ''X'') (PInt 2025) (PStr ''k'')
     = (fetching ''X'', Inr (Some (project [(''calendarYear'', PInt 2025)])))"
  by (simp add: run_defs payables_missing_payload_def)

lemma display_summary:
  "display_account_payables rt (Some result) =
     (case py_format rt (accountPayables result) of
        Inl e \<Rightarrow> (report_head rt result, Inl e)
      | Inr payables \<Rightarrow>
          (report_head rt result @
           [Print (''Account Payables:     '' @ payables @ '' '' @ py_str rt (currency result)),
            Print (rule70 @ [newline])], Inr ()))"
  by (simp add: display_account_payables_def)

lemma closing_display_raises:
  "display_account_payables rt (Some result) = (shown, Inl e) \<Longrightarrow>
   snd (closing rt s n (Inr (Some result))) = snd (main_except e)"
  by (simp add: closing_def split: prod.splits)

lemma main_display_raises:
  assumes "API_KEY \<noteq> ''INSERT YOUR API KEY''"
    and "str_upper rt (str_strip rt ticker_line) = s" and "s \<noteq> []"
    and "int_of_str rt (str_strip rt year_line) = Some n"
    and "get_account_payables rt net (PStr s) (PInt n) (PStr API_KEY) = (evs, Inr (Some result))"
    and "display_account_payables rt (Some result) = (shown, Inl e)"
  shows "snd (main API_KEY rt net ticker_line year_line) = snd (main_except e)"
  using main_reaches_call [OF assms(1-4), of net] assms(5) closing_display_raises [OF assms(6), of s n]
  by (simp split: prod.splits)

text \<open>
  The exit status of a run that reaches the call of \<^verbatim>\<open>get_account_payables\<close>: 1 when
  the call raises; when it returns \<^verbatim>\<open>None\<close>, 0 or 1 as standard output can or cannot
  encode the mark of line 167; and for a summary, 1 when the format of lines 121 and 165
  raises on its \<^verbatim>\<open>accountPayables\<close>, and else 0 or 1 as standard output can or cannot
  encode the mark of line 165.
\<close>

lemma main_except_status: "exit_status (snd (main_except e)) = 1"
  by (cases e) auto

lemma main_except_status_pair: "main_except e = (out, fin) \<Longrightarrow> exit_status fin = 1"
  using main_except_status [of e] by simp

lemma closing_status:
  "exit_status (snd (closing rt s n outcome)) =
     (case outcome of
        Inl e \<Rightarrow> 1
      | Inr None \<Rightarrow> (case encode_mark rt ballot_x of Inl m \<Rightarrow> 1 | Inr bytes \<Rightarrow> 0)
      | Inr (Some result) \<Rightarrow>
          (case py_format rt (accountPayables result) of
             Inl e \<Rightarrow> 1
           | Inr payables \<Rightarrow>
               (case encode_mark rt check_mark of Inl m \<Rightarrow> 1 | Inr bytes \<Rightarrow> 0)))"
  by (auto simp: closing_def print_marked_def display_summary main_except_status
      split: sum.splits option.splits prod.splits dest: main_except_status_pair)

lemma main_exit_status:
  assumes "API_KEY \<noteq> ''INSERT YOUR API KEY''"
    and "str_upper rt (str_strip rt ticker_line) = s" and "s \<noteq> []"
    and "int_of_str rt (str_strip rt year_line) = Some n"
    and "get_account_payables rt net (PStr s) (PInt n) (PStr API_KEY) = (evs, outcome)"
  shows "exit_status (snd (main API_KEY rt net ticker_line year_line)) =
     (case outcome of
        Inl e \<Rightarrow> 1
      | Inr None \<Rightarrow> (case encode_mark rt ballot_x of Inl m \<Rightarrow> 1 | Inr bytes \<Rightarrow> 0)
      | Inr (Some result) \<Rightarrow>
          (case py_format rt (accountPayables result) of
             Inl e \<Rightarrow> 1
           | Inr payables \<Rightarrow>
               (case encode_mark rt check_mark of Inl m \<Rightarrow> 1 | Inr bytes \<Rightarrow> 0)))"
proof -
  have "snd (main API_KEY rt net ticker_line year_line) = snd (closing rt s n outcome)"
    using main_reaches_call [OF assms(1-4), of net] assms(5) by (simp split: prod.splits)
  then show ?thesis using closing_status [of rt s n outcome] by simp
qed

text \<open>
  C7. The claim is that the report is written for every summary, also for one whose
  \<^verbatim>\<open>accountPayables\<close> is \<^verbatim>\<open>None\<close> because the record lacked the field. For the summary of
  the record \<^verbatim>\<open>{"calendarYear": 2025}\<close>, which \<^verbatim>\<open>get_account_payables\<close> returns,
  \<^verbatim>\<open>display_account_payables\<close> writes the lines up to the divider and then raises
  \<^verbatim>\<open>TypeError\<close> at line 121: the accounts-payable line and the closing banner are never
  written.
\<close>

theorem display_stops_without_payables:
  "display_account_payables rt (Some (project [(''calendarYear'', PInt 2025)])) =
     ([Print (newline # rule70),
       Print ''ACCOUNT PAYABLES INFORMATION'',
       Print rule70,
       Print ''Company:             None'',
       Print ''Ticker:              None'',
       Print ''Year:                2025'',
       Print ''Period:              None'',
       Print ''Filing Date:         None'',
       Print ''Currency:            None'',
       Print dash70],
      Inl (TypeError ''unsupported format string passed to NoneType.__format__''))
   \<and> snd (get_account_payables rt (answering payables_missing_payload)
            (PStr ''X'') (PInt 2025) (PStr ''k''))
       = Inr (Some (project [(''calendarYear'', PInt 2025)]))"
proof -
  have fields: "project [(''calendarYear'', PInt 2025)] =
     \<lparr> ticker = PNone, company_name = PNone, year = PInt 2025, period = PNone,
       filing_date = PNone, accepted_date = PNone, accountPayables = PNone, currency = PNone \<rparr>"
    by (simp add: project_def dict_get_def)
  have shown: "display_account_payables rt (Some (project [(''calendarYear'', PInt 2025)])) =
     ([Print (newline # rule70),
       Print ''ACCOUNT PAYABLES INFORMATION'',
       Print rule70,
       Print ''Company:             None'',
       Print ''Ticker:              None'',
       Print ''Year:                2025'',
       Print ''Period:              None'',
       Print ''Filing Date:         None'',
       Print ''Currency:            None'',
       Print dash70],
      Inl (TypeError ''unsupported format string passed to NoneType.__format__''))"
    unfolding fields by (simp add: display_account_payables_def report_head_def str_int_2025)
  show ?thesis using shown run_payables_missing [of rt] by simp
qed

theorem display_stops_without_payables_witness:
  "snd (display_account_payables plain_runtime (Some (project [(''calendarYear'', PInt 2025)])))
     = Inl (TypeError ''unsupported format string passed to NoneType.__format__'')
   \<and> length (fst (display_account_payables plain_runtime
                    (Some (project [(''calendarYear'', PInt 2025)])))) = 10"
  using display_stops_without_payables [of plain_runtime] by simp

text \<open>
  C6. The claim is that the process ends with status 1 only for the placeholder key, an
  empty ticker, a year that is no integer or a failed validation, and with status 0
  otherwise. With the key \<^verbatim>\<open>k\<close>, the ticker \<^verbatim>\<open>X\<close>, the year \<^verbatim>\<open>2025\<close> and an answer whose
  record for 2025 has no \<^verbatim>\<open>accountPayables\<close>, none of the four conditions holds, and the
  \<^verbatim>\<open>TypeError\<close> of line 121 leaves \<^verbatim>\<open>main\<close> uncaught: the process ends with status 1,
  with every runtime.
\<close>

theorem main_crashes_without_payables:
  "snd (main ''k'' rt (answering payables_missing_payload) ''X'' ''2025'') =
     Uncaught (TypeError ''unsupported format string passed to NoneType.__format__'')
   \<and> exit_status (snd (main ''k'' rt (answering payables_missing_payload) ''X'' ''2025'')) = 1
   \<and> ''k'' \<noteq> ''INSERT YOUR API KEY''
   \<and> upper (strip ''X'') = ''X''
   \<and> py_int (strip ''2025'') = Some 2025
   \<and> validate (PStr ''X'') (PInt 2025) (PStr ''k'') = Inr (''X'', 2025, ''k'')
   \<and> str_upper rt (str_strip rt ''X'') = ''X''
   \<and> int_of_str rt (str_strip rt ''2025'') = Some 2025"
proof -
  have "snd (main ''k'' rt (answering payables_missing_payload) ''X'' ''2025'') =
     Uncaught (TypeError ''unsupported format string passed to NoneType.__format__'')"
    using main_display_raises [of "''k''" rt "''X''" "''X''" "''2025''" 2025
        "answering payables_missing_payload", OF _ str_upper_strip_X _ int_of_str_2025]
      run_payables_missing [of rt] display_none_payables [of rt]
    by simp
  then show ?thesis
    by (simp add: py_int_2025 upper_strip_X validate_def str_upper_strip_X int_of_str_2025)
qed

theorem main_crashes_without_payables_witness:
  "exit_status (snd (main ''k'' plain_runtime (answering payables_missing_payload) ''X'' ''2025'')) = 1"
  using main_crashes_without_payables [of plain_runtime] by simp

subsection \<open>What the output depends on\<close>











subsection \<open>Normalisation of the ticker\<close>

lemma case_pair_upper: "case_pair c d \<Longrightarrow> to_upper c = d \<and> to_upper d = d"
proof -
  assume cp: "case_pair c d"
  then have lo: "97 \<le> (of_char c :: nat)" "(of_char c :: nat) \<le> 122"
    and off: "(of_char d :: nat) + 32 = of_char c"
    by (simp_all add: case_pair_def is_lower_def)
  have "(of_char c :: nat) - 32 = of_char d" using off by simp
  then have "to_upper c = d" using lo by (simp add: to_upper_def Let_def)
  moreover have "\<not> (97 \<le> (of_char d :: nat))" using lo off by simp
  then have "to_upper d = d" by (simp add: to_upper_def Let_def)
  ultimately show ?thesis by simp
qed

lemma same_letter_upper: "same_letter c d \<Longrightarrow> to_upper c = to_upper d"
  unfolding same_letter_def using case_pair_upper by metis

lemma same_letters_upper: "list_all2 same_letter xs ys \<Longrightarrow> upper xs = upper ys"
  unfolding upper_def by (induction rule: list_all2_induct) (auto dest: same_letter_upper)

lemma is_space_to_upper: "is_space (to_upper c) = is_space c"
proof (cases "97 \<le> (of_char c :: nat) \<and> (of_char c :: nat) \<le> 122")
  case True
  then have "to_upper c = char_of ((of_char c :: nat) - 32)" by (simp add: to_upper_def Let_def)
  moreover have "(of_char c :: nat) - 32 < 256" using True by arith
  then have "(of_char (char_of ((of_char c :: nat) - 32)) :: nat) = of_char c - 32"
    by (simp add: of_char_of)
  ultimately show ?thesis using True by (auto simp add: is_space_def Let_def)
next
  case False
  then show ?thesis by (auto simp add: to_upper_def Let_def)
qed

lemma upper_dropWhile: "upper (dropWhile is_space s) = dropWhile is_space (upper s)"
  unfolding upper_def by (induction s) (auto simp: is_space_to_upper)

lemma upper_strip: "upper (strip s) = strip (upper s)"
proof -
  have "upper (rev xs) = rev (upper xs)" for xs by (simp add: upper_def rev_map)
  then show ?thesis by (simp add: strip_def upper_dropWhile)
qed

lemma dropWhile_padding:
  "list_all is_space ws \<Longrightarrow> dropWhile is_space (ws @ s) = dropWhile is_space s"
  by (induction ws) auto

lemma strip_padding:
  assumes "list_all is_space ws1" and "list_all is_space ws2"
  shows "strip (ws1 @ s @ ws2) = strip s"
proof -
  have left: "dropWhile is_space (ws1 @ s @ ws2) = dropWhile is_space (s @ ws2)"
    using dropWhile_padding [OF assms(1)] by simp
  have ws2: "list_all is_space (rev ws2)" using assms(2) by (simp add: list_all_iff)
  show ?thesis
  proof (cases "list_all is_space s")
    case True
    then have "list_all is_space (ws1 @ s @ ws2)" using assms by simp
    then have "dropWhile is_space (ws1 @ s @ ws2) = []"
      by (simp only: dropWhile_eq_Nil_conv list_all_iff)
    moreover have "dropWhile is_space s = []"
      using True by (simp only: dropWhile_eq_Nil_conv list_all_iff)
    ultimately show ?thesis by (simp only: strip_def)
  next
    case False
    then have "dropWhile is_space (s @ ws2) = dropWhile is_space s @ ws2"
      by (auto simp: list_all_iff)
    then show ?thesis using left dropWhile_padding [OF ws2] by (simp add: strip_def)
  qed
qed

lemma normalised_ticker:
  assumes "list_all is_space ws1" "list_all is_space ws2" "list_all is_space ws3"
    "list_all is_space ws4" "list_all2 same_letter core1 core2"
  shows "upper (strip (ws1 @ core1 @ ws2)) = upper (strip (ws3 @ core2 @ ws4))"
  using assms by (simp add: strip_padding upper_strip same_letters_upper)

lemma is_space_ascii: "is_space c \<Longrightarrow> ascii_char c"
  by (auto simp: is_space_def ascii_char_def Let_def)

lemma spaces_ascii: "list_all is_space ws \<Longrightarrow> is_ascii ws"
  by (auto simp: is_ascii_def list_all_iff is_space_ascii)

lemma same_letter_ascii: "same_letter c d \<Longrightarrow> ascii_char c \<Longrightarrow> ascii_char d"
  by (auto simp: same_letter_def case_pair_def is_lower_def ascii_char_def)

lemma same_letters_ascii: "list_all2 same_letter xs ys \<Longrightarrow> is_ascii xs \<Longrightarrow> is_ascii ys"
  unfolding is_ascii_def
  by (induction rule: list_all2_induct) (auto dest: same_letter_ascii)

lemma same_letters_sym: "list_all2 same_letter xs ys \<Longrightarrow> list_all2 same_letter ys xs"
  by (induction rule: list_all2_induct) (auto simp: same_letter_def)

lemma is_ascii_append: "is_ascii (xs @ ys) = (is_ascii xs \<and> is_ascii ys)"
  by (simp add: is_ascii_def)

lemma strip_ascii: "is_ascii s \<Longrightarrow> is_ascii (strip s)"
proof -
  assume "is_ascii s"
  moreover have "set (dropWhile is_space (rev (dropWhile is_space s)))
      \<subseteq> set (rev (dropWhile is_space s))"
    by (auto dest: set_dropWhileD)
  then have "set (strip s) \<subseteq> set (dropWhile is_space s)" by (simp add: strip_def)
  then have "set (strip s) \<subseteq> set s" by (auto dest: set_dropWhileD)
  ultimately show ?thesis by (auto simp: is_ascii_def list_all_iff)
qed

lemma normalise_ascii:
  "is_ascii line \<Longrightarrow> str_upper rt (str_strip rt line) = upper (strip line)"
  by (simp add: str_upper_def str_strip_def strip_ascii)

lemma normalised_line:
  assumes "list_all is_space ws1" "list_all is_space ws2" "is_ascii core"
  shows "str_upper rt (str_strip rt (ws1 @ core @ ws2)) = upper (strip core)"
proof -
  have "is_ascii (ws1 @ core @ ws2)"
    using assms by (simp add: is_ascii_append spaces_ascii)
  then show ?thesis using assms by (simp add: normalise_ascii strip_padding)
qed

lemma main_except_no_request: "requests_of (fst (main_except e)) = []"
  by (cases e) auto

lemma display_no_request: "requests_of (fst (display_account_payables rt res)) = []"
  by (auto simp: display_account_payables_def report_head_def requests_of_append
      split: option.splits sum.splits)

lemma closing_no_request: "requests_of (fst (closing rt s n outcome)) = []"
proof -
  have shown: "display_account_payables rt res = (evs, r) \<Longrightarrow> requests_of evs = []" for res evs r
    using display_no_request [of rt res] by simp
  have handled: "main_except e = (out, fin) \<Longrightarrow> requests_of out = []" for e out fin
    using main_except_no_request [of e] by simp
  show ?thesis
    by (auto simp: closing_def print_marked_def requests_of_append main_except_no_request
        split: sum.splits option.splits prod.splits dest: shown handled)
qed

lemma main_requests:
  assumes "API_KEY \<noteq> ''INSERT YOUR API KEY''"
    and "str_upper rt (str_strip rt ticker_line) = s" and "s \<noteq> []"
    and "int_of_str rt (str_strip rt year_line) = Some n"
    and "validate (PStr s) (PInt n) (PStr API_KEY) = Inr (s, n, a)"
  shows "requests_of (fst (main API_KEY rt net ticker_line year_line)) = [request_for s]"
proof -
  obtain evs outcome where run:
    "get_account_payables rt net (PStr s) (PInt n) (PStr API_KEY) = (evs, outcome)"
    by (cases "get_account_payables rt net (PStr s) (PInt n) (PStr API_KEY)")
  obtain out fin where last: "closing rt s n outcome = (out, fin)"
    by (cases "closing rt s n outcome")
  have "requests_of evs = [request_for s]"
    using gap_requests [OF assms(5), of rt net] run by simp
  moreover have "requests_of out = []" using closing_no_request [of rt s n outcome] last by simp
  moreover have "fst (main API_KEY rt net ticker_line year_line) = banner @ [year_prompt] @ evs @ out"
    using main_reaches_call [OF assms(1-4), of net] run last by simp
  ultimately show ?thesis by (simp add: requests_of_append banner_def year_prompt_def)
qed

lemma main_same_ticker:
  "str_upper rt (str_strip rt line1) = str_upper rt (str_strip rt line2) \<Longrightarrow>
   main API_KEY rt net line1 year_line = main API_KEY rt net line2 year_line"
  by (simp only: main_def)

text \<open>
  C10, as amended. Line 144 strips and upper-cases the entered ticker before the
  validation and the request: when the run reaches the call, \<^verbatim>\<open>get_account_payables\<close> is
  called with the normalised ticker, after the banner and the prompts and before what
  \<^verbatim>\<open>main\<close> prints last, and when the validation passes the one request has the URL that
  ends in the normalised ticker. For ASCII text that is the text without its surrounding
  whitespace and with its letters in upper case: two ASCII ticker lines that are a common
  text in either letter case, each with any whitespace before and after it, give the same
  normalised ticker and the same run, so the same request URL and the same output.
\<close>

theorem ticker_is_normalised:
  assumes "list_all is_space ws1" "list_all is_space ws2" "list_all is_space ws3"
    "list_all is_space ws4" "list_all2 same_letter core1 core2" "is_ascii core1"
  shows "str_upper rt (str_strip rt (ws1 @ core1 @ ws2)) = upper (strip core1)
     \<and> str_upper rt (str_strip rt (ws3 @ core2 @ ws4)) = upper (strip core1)
     \<and> main API_KEY rt net (ws1 @ core1 @ ws2) year_line
         = main API_KEY rt net (ws3 @ core2 @ ws4) year_line
     \<and> stdout rt (fst (main API_KEY rt net (ws1 @ core1 @ ws2) year_line))
         = stdout rt (fst (main API_KEY rt net (ws3 @ core2 @ ws4) year_line))
     \<and> (\<forall>n. API_KEY \<noteq> ''INSERT YOUR API KEY'' \<and> upper (strip core1) \<noteq> []
             \<and> int_of_str rt (str_strip rt year_line) = Some n \<longrightarrow>
           main API_KEY rt net (ws1 @ core1 @ ws2) year_line =
             (case get_account_payables rt net (PStr (upper (strip core1))) (PInt n)
                     (PStr API_KEY) of
                (evs, outcome) \<Rightarrow>
                  (case closing rt (upper (strip core1)) n outcome of
                     (out, fin) \<Rightarrow> (banner @ [year_prompt] @ evs @ out, fin))))
     \<and> (\<forall>n a. API_KEY \<noteq> ''INSERT YOUR API KEY''
             \<and> int_of_str rt (str_strip rt year_line) = Some n
             \<and> validate (PStr (upper (strip core1))) (PInt n) (PStr API_KEY)
                 = Inr (upper (strip core1), n, a) \<longrightarrow>
           map url (requests_of (fst (main API_KEY rt net (ws1 @ core1 @ ws2) year_line)))
             = [''https://ac-api-server.vercel.app/server/company/'' @ upper (strip core1)])"
proof -
  let ?norm = "upper (strip core1)"
  have first: "str_upper rt (str_strip rt (ws1 @ core1 @ ws2)) = ?norm"
    using normalised_line [OF assms(1) assms(2) assms(6)] .
  have "is_ascii core2" using same_letters_ascii [OF assms(5) assms(6)] .
  then have "str_upper rt (str_strip rt (ws3 @ core2 @ ws4)) = upper (strip core2)"
    using normalised_line [OF assms(3) assms(4)] by simp
  moreover have "upper (strip core2) = ?norm"
    using assms(5) by (simp add: upper_strip same_letters_upper)
  ultimately have second: "str_upper rt (str_strip rt (ws3 @ core2 @ ws4)) = ?norm" by simp
  have same: "main API_KEY rt net (ws1 @ core1 @ ws2) year_line
         = main API_KEY rt net (ws3 @ core2 @ ws4) year_line"
    using main_same_ticker [of rt "ws1 @ core1 @ ws2" "ws3 @ core2 @ ws4"] first second by simp
  have call: "\<forall>n. API_KEY \<noteq> ''INSERT YOUR API KEY'' \<and> ?norm \<noteq> []
             \<and> int_of_str rt (str_strip rt year_line) = Some n \<longrightarrow>
           main API_KEY rt net (ws1 @ core1 @ ws2) year_line =
             (case get_account_payables rt net (PStr ?norm) (PInt n) (PStr API_KEY) of
                (evs, outcome) \<Rightarrow>
                  (case closing rt ?norm n outcome of
                     (out, fin) \<Rightarrow> (banner @ [year_prompt] @ evs @ out, fin)))"
    using main_reaches_call [of API_KEY rt "ws1 @ core1 @ ws2" ?norm year_line _ net] first
    by blast
  have request: "\<forall>n a. API_KEY \<noteq> ''INSERT YOUR API KEY''
             \<and> int_of_str rt (str_strip rt year_line) = Some n
             \<and> validate (PStr ?norm) (PInt n) (PStr API_KEY) = Inr (?norm, n, a) \<longrightarrow>
           map url (requests_of (fst (main API_KEY rt net (ws1 @ core1 @ ws2) year_line)))
             = [''https://ac-api-server.vercel.app/server/company/'' @ ?norm]"
  proof (intro allI impI)
    fix n a
    assume h: "API_KEY \<noteq> ''INSERT YOUR API KEY''
             \<and> int_of_str rt (str_strip rt year_line) = Some n
             \<and> validate (PStr ?norm) (PInt n) (PStr API_KEY) = Inr (?norm, n, a)"
    then have "?norm \<noteq> []" by (simp add: validate_Inr_iff)
    then have "requests_of (fst (main API_KEY rt net (ws1 @ core1 @ ws2) year_line))
        = [request_for ?norm]"
      using main_requests [of API_KEY rt "ws1 @ core1 @ ws2" ?norm year_line n a net] first h
      by simp
    then show "map url (requests_of (fst (main API_KEY rt net (ws1 @ core1 @ ws2) year_line)))
             = [''https://ac-api-server.vercel.app/server/company/'' @ ?norm]"
      by (simp add: request_for_def)
  qed
  show ?thesis using first second same call request by simp
qed

theorem ticker_is_normalised_witness:
  "main ''k'' plain_runtime (answering example_payload) ''  aapl'' ''2025''
     = main ''k'' plain_runtime (answering example_payload) ''AaPL '' ''2025''
   \<and> map url (requests_of (fst (main ''k'' plain_runtime (answering example_payload)
                                   ''  aapl'' ''2025'')))
       = [''https://ac-api-server.vercel.app/server/company/AAPL'']"
proof -
  have ws: "list_all is_space ''  ''" "list_all is_space []" "list_all is_space '' ''"
    by (simp_all add: is_space_def)
  have letters: "list_all2 same_letter ''aapl'' ''AaPL''"
    by (simp add: same_letter_def case_pair_def is_lower_def)
  have ascii: "is_ascii ''aapl''" by (simp add: is_ascii_def ascii_char_def)
  have norm: "upper (strip ''aapl'') = ''AAPL''" by code_simp
  have valid: "validate (PStr ''AAPL'') (PInt 2025) (PStr ''k'') = Inr (''AAPL'', 2025, ''k'')"
    by (simp add: validate_def)
  show ?thesis
    using ticker_is_normalised [OF ws(1) ws(2) ws(2) ws(3) letters ascii, of plain_runtime
        "''k''" "answering example_payload" "''2025''"]
      int_of_str_2025 [of plain_runtime] valid
    by (auto simp: norm)
qed

text \<open>
  The claim as it was worded, for every pair of inputs that differ only in letter case,
  fails beyond ASCII: the small and the capital sharp s are one letter in two cases, and
  \<^verbatim>\<open>upper\<close> turns the small one into \<^verbatim>\<open>SS\<close> and leaves the capital one, so the two request
  URLs differ.
\<close>

theorem sharp_s_counterexample:
  "map url (requests_of (fst (main ''k'' sharp_s_runtime (answering example_payload)
                                small_sharp_s ''2025'')))
     = [''https://ac-api-server.vercel.app/server/company/SS'']
   \<and> map url (requests_of (fst (main ''k'' sharp_s_runtime (answering example_payload)
                                  capital_sharp_s ''2025'')))
     = [''https://ac-api-server.vercel.app/server/company/'' @ capital_sharp_s]
   \<and> ''https://ac-api-server.vercel.app/server/company/SS''
     \<noteq> ''https://ac-api-server.vercel.app/server/company/'' @ capital_sharp_s"
proof -
  have key: "''k'' \<noteq> ''INSERT YOUR API KEY''" by simp
  have small: "str_upper sharp_s_runtime (str_strip sharp_s_runtime small_sharp_s) = ''SS''"
    by (simp add: str_upper_def str_strip_def sharp_s_runtime_def plain_runtime_def
        small_sharp_s_def is_ascii_def ascii_char_def)
  have capital: "str_upper sharp_s_runtime (str_strip sharp_s_runtime capital_sharp_s)
      = capital_sharp_s"
    by (simp add: str_upper_def str_strip_def sharp_s_runtime_def plain_runtime_def
        small_sharp_s_def capital_sharp_s_def is_ascii_def ascii_char_def)
  have v1: "validate (PStr ''SS'') (PInt 2025) (PStr ''k'') = Inr (''SS'', 2025, ''k'')"
    by (simp add: validate_def)
  have v2: "validate (PStr capital_sharp_s) (PInt 2025) (PStr ''k'')
      = Inr (capital_sharp_s, 2025, ''k'')"
    by (simp add: validate_def capital_sharp_s_def)
  have ne: "capital_sharp_s \<noteq> []" by (simp add: capital_sharp_s_def)
  have r1: "requests_of (fst (main ''k'' sharp_s_runtime (answering example_payload)
                                small_sharp_s ''2025'')) = [request_for ''SS'']"
    using main_requests [OF key small _ int_of_str_2025 v1] by simp
  have r2: "requests_of (fst (main ''k'' sharp_s_runtime (answering example_payload)
                                capital_sharp_s ''2025'')) = [request_for capital_sharp_s]"
    using main_requests [OF key capital ne int_of_str_2025 v2] by simp
  show ?thesis unfolding r1 r2 by (simp add: request_for_def capital_sharp_s_def)
qed

end
